theory Spec2Isabelle
  imports Main "HOL-Library.Sublist"
begin

section \<open>The notification hook \<open>useNotifications\<close>\<close>

text \<open>
  The hook of \<^verbatim>\<open>src/hooks/useNotifications.ts\<close> keeps three pieces of React state
  (\<open>notifications\<close>, \<open>loading\<close>, \<open>error\<close>), talks to the HTTP API with \<open>fetch\<close>, raises
  toasts, and reconciles the rows pushed by the realtime channel. Strings are byte lists
  (UTF-8), so the accented letter of a French message is two characters. Console output
  is not part of the model.
\<close>

subsection \<open>Data\<close>

text \<open>
  The interface \<open>Notification\<close>. The fields \<open>id\<close> and \<open>type\<close> carry a suffix, their names
  being taken in HOL. \<open>eventId\<close> is nullable in the schema (\<open>String?\<close>); a \<open>Date\<close> is its
  number of milliseconds since the epoch.
\<close>

record notification =
  id_n :: string
  userId :: string
  type_n :: string
  message :: string
  read :: bool
  eventId :: "string option"
  createdAt :: int
  updatedAt :: int

text \<open>The interface \<open>ApiError\<close>: the field \<open>error\<close>, then the optional field \<open>details\<close>.\<close>

datatype ApiError = ApiError string "string option"

text \<open>
  What a \<open>throw\<close> or a rejected promise carries: an \<open>Error\<close> object with its message, or
  any other value (for which \<open>err instanceof Error\<close> is false).
\<close>

datatype thrown = JsError string | NonError

text \<open>
  A \<open>Response\<close>, as far as the hook reads it: \<open>ok\<close>, \<open>status\<close>, the header
  \<open>content-type\<close> (\<open>null\<close> when absent), and what each reader of the body settles with:
  \<open>response.text()\<close>, \<open>response.json()\<close> read at the type \<open>ApiError\<close>, and
  \<open>response.json()\<close> read as the array of notifications. A reader that rejects (a body
  that is not JSON, a broken stream) is \<open>Inl\<close>. Parsed JSON has the type the source
  declares for it: an \<open>ApiError\<close> for \<open>errorData\<close>, an array of \<open>Notification\<close> for
  \<open>data\<close>.
\<close>

record response =
  ok :: bool
  status :: nat
  content_type :: "string option"
  body_text :: "thrown + string"
  json_error :: "thrown + ApiError"
  json_data :: "thrown + notification list"

text \<open>The argument of a \<open>fetch\<close> call: the URL, and the options \<open>method\<close> and \<open>credentials\<close>.\<close>

datatype request = Request string "string option" "string option"

datatype toast = ToastError string | ToastInfo string

text \<open>
  The state of the hook, and with it the two effects a caller can observe: the toasts
  raised and the requests sent, oldest first.
\<close>

record hook =
  notifications :: "notification list"
  loading :: bool
  error :: "string option"
  toasts :: "toast list"
  fetches :: "request list"

text \<open>The values of the three \<open>useState\<close> calls, before any effect has run.\<close>

definition initial :: hook where
  "initial = \<lparr>notifications = [], loading = True, error = None, toasts = [], fetches = []\<rparr>"

subsection \<open>JavaScript strings\<close>

text \<open>
  \<open>a || b\<close> where \<open>a\<close> is a string or \<open>undefined\<close>: the empty string and \<open>undefined\<close>
  are falsy.
\<close>

definition or_str :: "string option \<Rightarrow> string \<Rightarrow> string" where
  "or_str a b = (case a of None \<Rightarrow> b | Some s \<Rightarrow> if s = [] then b else s)"

text \<open>\<open>s.includes(sub)\<close>: \<open>sub\<close> occurs in \<open>s\<close> as a contiguous run.\<close>

primrec includes_str :: "string \<Rightarrow> string \<Rightarrow> bool" where
  "includes_str [] sub = (sub = [])"
| "includes_str (c # cs) sub = (prefix sub (c # cs) \<or> includes_str cs sub)"

text \<open>\<open>xs.join(sep)\<close>.\<close>

fun join :: "string \<Rightarrow> string list \<Rightarrow> string" where
  "join sep [] = []"
| "join sep [x] = x"
| "join sep (x # y # ys) = x @ sep @ join sep (y # ys)"

text \<open>\<open>err instanceof Error ? err.message : fallback\<close>.\<close>

definition message_or :: "thrown \<Rightarrow> string \<Rightarrow> string" where
  "message_or err fallback = (case err of JsError m \<Rightarrow> m | NonError \<Rightarrow> fallback)"

text \<open>\<open>errorData.details || errorData.error || fallback\<close>.\<close>

definition api_error_message :: "ApiError \<Rightarrow> string \<Rightarrow> string" where
  "api_error_message errorData fallback =
     (case errorData of ApiError err details \<Rightarrow> or_str details (or_str (Some err) fallback))"

text \<open>The messages of the source that are not plain ASCII, as UTF-8 bytes.\<close>

definition msg_load_failed :: string where
  "msg_load_failed =
     ''Erreur lors de la r'' @ [CHR 0xC3, CHR 0xA9] @ ''cup'' @ [CHR 0xC3, CHR 0xA9]
       @ ''ration des notifications''"

definition msg_non_json :: string where
  "msg_non_json = ''Erreur serveur: r'' @ [CHR 0xC3, CHR 0xA9] @ ''ponse non-JSON''"

subsection \<open>Asynchronous code with exceptions\<close>

text \<open>
  A piece of the hook's code runs on a state and either completes with a value or throws;
  in both cases the state changes made so far stay. The answer of the network to a
  request is an input of the function that sends it, and an operation runs from its call
  to the settlement of its promise with no other handler in between.
\<close>

type_synonym 'a task = "hook \<Rightarrow> (thrown + 'a) \<times> hook"

definition done_with :: "'a \<Rightarrow> 'a task" where
  "done_with x = (\<lambda>s. (Inr x, s))"

definition throw :: "thrown \<Rightarrow> 'a task" where
  "throw e = (\<lambda>s. (Inl e, s))"

text \<open>\<open>await\<close> of a promise whose settlement is given.\<close>

definition await :: "thrown + 'a \<Rightarrow> 'a task" where
  "await r = (\<lambda>s. (r, s))"

definition and_then :: "'a task \<Rightarrow> ('a \<Rightarrow> 'b task) \<Rightarrow> 'b task" where
  "and_then m f = (\<lambda>s. case m s of (Inl e, s') \<Rightarrow> (Inl e, s') | (Inr x, s') \<Rightarrow> f x s')"

definition next_do :: "unit task \<Rightarrow> 'b task \<Rightarrow> 'b task" where
  "next_do m n = and_then m (\<lambda>_. n)"

definition try_catch :: "'a task \<Rightarrow> (thrown \<Rightarrow> 'a task) \<Rightarrow> 'a task" where
  "try_catch m h = (\<lambda>s. case m s of (Inl e, s') \<Rightarrow> h e s' | (Inr x, s') \<Rightarrow> (Inr x, s'))"

definition try_finally :: "'a task \<Rightarrow> unit task \<Rightarrow> 'a task" where
  "try_finally m fin =
     (\<lambda>s. case m s of (r, s') \<Rightarrow>
        (case fin s' of (Inl e, s'') \<Rightarrow> (Inl e, s'') | (Inr _, s'') \<Rightarrow> (r, s'')))"

definition setNotifications :: "(notification list \<Rightarrow> notification list) \<Rightarrow> unit task" where
  "setNotifications f = (\<lambda>s. (Inr (), s\<lparr>notifications := f (notifications s)\<rparr>))"

definition setLoading :: "bool \<Rightarrow> unit task" where
  "setLoading b = (\<lambda>s. (Inr (), s\<lparr>loading := b\<rparr>))"

definition setError :: "string option \<Rightarrow> unit task" where
  "setError e = (\<lambda>s. (Inr (), s\<lparr>error := e\<rparr>))"

definition toast_error :: "string \<Rightarrow> unit task" where
  "toast_error m = (\<lambda>s. (Inr (), s\<lparr>toasts := toasts s @ [ToastError m]\<rparr>))"

definition toast_info :: "string \<Rightarrow> unit task" where
  "toast_info m = (\<lambda>s. (Inr (), s\<lparr>toasts := toasts s @ [ToastInfo m]\<rparr>))"

text \<open>\<open>await fetch(...)\<close>: the request is sent, then the given settlement is received.\<close>

definition fetch :: "request \<Rightarrow> thrown + response \<Rightarrow> response task" where
  "fetch req settled = (\<lambda>s. (settled, s\<lparr>fetches := fetches s @ [req]\<rparr>))"

text \<open>The state an operation leaves, and how its promise settles.\<close>

definition after :: "'a task \<Rightarrow> hook \<Rightarrow> hook" where
  "after m s = snd (m s)"

definition settles :: "'a task \<Rightarrow> hook \<Rightarrow> thrown + 'a" where
  "settles m s = fst (m s)"

subsection \<open>The operations\<close>

text \<open>
  The body of the \<open>if (!response.ok)\<close> of \<open>loadNotifications\<close> up to the \<open>throw\<close>: the
  value of \<open>errorData\<close>.
\<close>

definition load_errorData :: "response \<Rightarrow> ApiError task" where
  "load_errorData response =
     (case content_type response of
        None \<Rightarrow>
          and_then (await (body_text response))
            (\<lambda>text. done_with (ApiError msg_non_json (Some text)))
      | Some contentType \<Rightarrow>
          if contentType \<noteq> [] \<and> includes_str contentType ''application/json''
          then try_catch (await (json_error response))
                 (\<lambda>jsonErr. done_with (ApiError ''Erreur inconnue'' None))
          else and_then (await (body_text response))
                 (\<lambda>text. done_with (ApiError msg_non_json (Some text))))"

definition loadNotifications :: "string option \<Rightarrow> thrown + response \<Rightarrow> unit task" where
  "loadNotifications user settled =
     (case user of
        None \<Rightarrow> next_do (setNotifications (\<lambda>_. [])) (setLoading False)
      | Some u \<Rightarrow>
          try_finally
            (try_catch
               (next_do (setLoading True)
               (next_do (setError None)
               (and_then (fetch (Request ''/api/notifications'' None None) settled)
                  (\<lambda>response.
                     if \<not> ok response
                     then and_then (load_errorData response)
                            (\<lambda>errorData.
                               throw (JsError (api_error_message errorData msg_load_failed)))
                     else and_then (await (json_data response))
                            (\<lambda>data. setNotifications (\<lambda>_. data))))))
               (\<lambda>err. let errorMessage = message_or err msg_load_failed
                       in next_do (setError (Some errorMessage)) (toast_error errorMessage)))
            (setLoading False))"

definition markAsRead :: "string option \<Rightarrow> string list \<Rightarrow> thrown + response \<Rightarrow> unit task" where
  "markAsRead user notificationIds settled =
     (case user of
        None \<Rightarrow> done_with ()
      | Some u \<Rightarrow>
          try_catch
            (and_then
               (fetch (Request (''/api/notifications/'' @ join '','' notificationIds)
                         (Some ''PATCH'') None) settled)
               (\<lambda>response.
                  if \<not> ok response
                  then and_then (await (json_error response))
                         (\<lambda>errorData.
                            throw (JsError (api_error_message errorData
                                     ''Erreur lors du marquage des notifications'')))
                  else setNotifications
                         (map (\<lambda>notification.
                                 if id_n notification \<in> set notificationIds
                                 then notification\<lparr>read := True\<rparr>
                                 else notification))))
            (\<lambda>err. let errorMessage =
                          message_or err ''Impossible de marquer les notifications comme lues''
                    in toast_error errorMessage))"

definition deleteNotifications ::
  "string option \<Rightarrow> string list \<Rightarrow> thrown + response \<Rightarrow> unit task" where
  "deleteNotifications user notificationIds settled =
     (case user of
        None \<Rightarrow> done_with ()
      | Some u \<Rightarrow>
          try_catch
            (and_then
               (fetch (Request (''/api/notifications/'' @ join '','' notificationIds)
                         (Some ''DELETE'') (Some ''include'')) settled)
               (\<lambda>response.
                  if \<not> ok response
                  then and_then (await (json_error response))
                         (\<lambda>errorData.
                            throw (JsError (api_error_message errorData
                                     ''Erreur lors de la suppression des notifications'')))
                  else setNotifications
                         (filter (\<lambda>notification.
                                    \<not> (id_n notification \<in> set notificationIds)))))
            (\<lambda>err. let errorMessage =
                          message_or err ''Impossible de supprimer les notifications''
                    in toast_error errorMessage))"

text \<open>
  The callback given to \<open>supabase.auth.onAuthStateChange\<close>; \<open>user\<close> is the value the
  enclosing render captured, and \<open>settled\<close> the answer to the request that
  \<open>loadNotifications\<close> may send.
\<close>

definition onAuthStateChange :: "string option \<Rightarrow> string \<Rightarrow> thrown + response \<Rightarrow> unit task" where
  "onAuthStateChange user event settled =
     (if event = ''SIGNED_IN'' then loadNotifications user settled
      else if event = ''SIGNED_OUT'' then setNotifications (\<lambda>_. [])
      else done_with ())"

text \<open>
  The payload of a realtime change: its \<open>eventType\<close> with the row image the handler
  reads (\<open>payload.new\<close> for an insert or an update, \<open>payload.old\<close> for a delete).
\<close>

datatype payload = INSERT notification | UPDATE notification | DELETE notification

fun on_postgres_changes :: "payload \<Rightarrow> unit task" where
  "on_postgres_changes (INSERT newNotification) =
     next_do (setNotifications (\<lambda>prev. newNotification # prev))
             (toast_info (message newNotification))"
| "on_postgres_changes (UPDATE updatedNotification) =
     setNotifications
       (map (\<lambda>n. if id_n n = id_n updatedNotification then updatedNotification else n))"
| "on_postgres_changes (DELETE deletedNotification) =
     setNotifications (filter (\<lambda>n. id_n n \<noteq> id_n deletedNotification))"

text \<open>The derived value the hook returns beside its state.\<close>

definition unreadCount :: "hook \<Rightarrow> nat" where
  "unreadCount s = length (filter (\<lambda>n. \<not> read n) (notifications s))"

subsection \<open>Runs of the hook\<close>

text \<open>The realtime channel delivers its payloads to the handler one after another.\<close>

fun deliver :: "payload list \<Rightarrow> unit task" where
  "deliver [] = done_with ()"
| "deliver (p # ps) = next_do (on_postgres_changes p) (deliver ps)"

text \<open>
  What can happen to a mounted hook: the body of \<open>useEffect\<close> runs (it calls
  \<open>loadNotifications\<close>), the authentication listener or the realtime handler is called,
  or the component calls one of the three functions the hook returns. Each carries the
  \<open>user\<close> its closure captured and the answer of the network to the request it may send.
  The realtime handler is registered only while a user is bound; the runs below allow it
  at any time, so they cover every state the hook can be in.
\<close>

datatype event =
    EffectRun "string option" "thrown + response"
  | AuthStateChange "string option" string "thrown + response"
  | PostgresChange payload
  | CallLoad "string option" "thrown + response"
  | CallMarkAsRead "string option" "string list" "thrown + response"
  | CallDelete "string option" "string list" "thrown + response"

fun dispatch :: "event \<Rightarrow> unit task" where
  "dispatch (EffectRun user settled) = loadNotifications user settled"
| "dispatch (AuthStateChange user ev settled) = onAuthStateChange user ev settled"
| "dispatch (PostgresChange p) = on_postgres_changes p"
| "dispatch (CallLoad user settled) = loadNotifications user settled"
| "dispatch (CallMarkAsRead user ids settled) = markAsRead user ids settled"
| "dispatch (CallDelete user ids settled) = deleteNotifications user ids settled"

inductive reachable :: "hook \<Rightarrow> bool" where
  reachable_initial: "reachable initial"
| reachable_dispatch: "reachable s \<Longrightarrow> reachable (after (dispatch e) s)"

subsection \<open>Notions used to state the properties\<close>

text \<open>
  A mutation request fails when \<open>fetch\<close> rejects or the response is not a 2xx one
  (\<open>response.ok\<close> is false).
\<close>

definition request_failed :: "thrown + response \<Rightarrow> bool" where
  "request_failed settled = (case settled of Inl _ \<Rightarrow> True | Inr response \<Rightarrow> \<not> ok response)"



text \<open>The header \<open>content-type\<close> announces JSON.\<close>

definition announces_json :: "response \<Rightarrow> bool" where
  "announces_json response =
     (case content_type response of None \<Rightarrow> False | Some ct \<Rightarrow> sublist ''application/json'' ct)"



text \<open>
  The value \<open>errorData\<close> has when \<open>loadNotifications\<close> reaches its \<open>throw\<close>, or what
  reading the body threw instead, as a function of the response.
\<close>

definition errorData_of :: "response \<Rightarrow> thrown + ApiError" where
  "errorData_of response =
     (if announces_json response
      then (case json_error response of
              Inl _ \<Rightarrow> Inr (ApiError ''Erreur inconnue'' None) | Inr d \<Rightarrow> Inr d)
      else (case body_text response of
              Inl e \<Rightarrow> Inl e | Inr text \<Rightarrow> Inr (ApiError msg_non_json (Some text))))"

subsection \<open>Sample data\<close>

definition sample_1 :: notification where
  "sample_1 = \<lparr>id_n = ''1'', userId = ''u1'', type_n = ''invite'', message = ''You are invited'',
     read = False, eventId = Some ''e1'', createdAt = 1000, updatedAt = 1000\<rparr>"

definition sample_2 :: notification where
  "sample_2 = \<lparr>id_n = ''2'', userId = ''u1'', type_n = ''reminder'', message = ''Party tomorrow'',
     read = False, eventId = None, createdAt = 2000, updatedAt = 2000\<rparr>"

definition sample_3 :: notification where
  "sample_3 = \<lparr>id_n = ''3'', userId = ''u1'', type_n = ''comment'', message = ''New comment'',
     read = True, eventId = None, createdAt = 3000, updatedAt = 3500\<rparr>"

text \<open>The state after a load that returned the first two samples.\<close>

definition sample_loaded :: hook where
  "sample_loaded = \<lparr>notifications = [sample_1, sample_2], loading = False, error = None,
     toasts = [], fetches = [Request ''/api/notifications'' None None]\<rparr>"

text \<open>A 2xx response carrying the first two samples.\<close>

definition response_list :: response where
  "response_list = \<lparr>ok = True, status = 200, content_type = Some ''application/json'',
     body_text = Inr ''[...]'', json_error = Inr (ApiError [] None),
     json_data = Inr [sample_1, sample_2]\<rparr>"

text \<open>A 2xx response with an empty body, as a mutation endpoint may send.\<close>

definition response_done :: response where
  "response_done = \<lparr>ok = True, status = 204, content_type = None,
     body_text = Inr [], json_error = Inl (JsError ''Unexpected end of JSON input''),
     json_data = Inl (JsError ''Unexpected end of JSON input'')\<rparr>"

text \<open>A 500 response with a structured error body.\<close>

definition response_api_error :: response where
  "response_api_error = \<lparr>ok = False, status = 500,
     content_type = Some ''application/json; charset=utf-8'',
     body_text = Inr ''{...}'',
     json_error = Inr (ApiError ''Internal error'' (Some ''database unreachable'')),
     json_data = Inl (JsError ''Unexpected token'')\<rparr>"

text \<open>A 502 response from a proxy, with a body that is not JSON.\<close>

definition response_html :: response where
  "response_html = \<lparr>ok = False, status = 502, content_type = Some ''text/html'',
     body_text = Inr ''Bad Gateway'',
     json_error = Inl (JsError ''Unexpected token B in JSON''),
     json_data = Inl (JsError ''Unexpected token B in JSON'')\<rparr>"

text \<open>A 503 response with no \<open>content-type\<close> header and an empty body.\<close>

definition response_empty :: response where
  "response_empty = \<lparr>ok = False, status = 503, content_type = None,
     body_text = Inr [], json_error = Inl (JsError ''Unexpected end of JSON input''),
     json_data = Inl (JsError ''Unexpected end of JSON input'')\<rparr>"

section \<open>Properties\<close>

subsection \<open>Unfolding the operations\<close>

lemmas task_defs = done_with_def throw_def await_def and_then_def next_do_def try_catch_def
  try_finally_def setNotifications_def setLoading_def setError_def toast_error_def
  toast_info_def fetch_def

lemma includes_str_sublist: "includes_str s sub = sublist sub s"
  by (induction s) (auto simp: sublist_Cons_right)


lemma msg_non_json_nonempty: "msg_non_json \<noteq> []"
  by (simp add: msg_non_json_def)


lemma load_success:
  assumes "ok response" "json_data response = Inr data"
  shows "loadNotifications (Some u) (Inr response) s =
    (Inr (), s\<lparr>notifications := data, loading := False, error := None,
               fetches := fetches s @ [Request ''/api/notifications'' None None]\<rparr>)"
  using assms by (simp add: loadNotifications_def task_defs)

lemma load_errorData_eq: "load_errorData response s = (errorData_of response, s)"
  by (simp add: load_errorData_def errorData_of_def announces_json_def includes_str_sublist
        task_defs split: option.splits sum.splits)


lemma load_not_ok:
  assumes "\<not> ok response"
  shows "loadNotifications (Some u) (Inr response) s =
    (let m = (case errorData_of response of
                Inl e \<Rightarrow> message_or e msg_load_failed
              | Inr d \<Rightarrow> api_error_message d msg_load_failed)
     in (Inr (), s\<lparr>loading := False, error := Some m, toasts := toasts s @ [ToastError m],
               fetches := fetches s @ [Request ''/api/notifications'' None None]\<rparr>))"
  using assms
  by (simp add: loadNotifications_def load_errorData_eq task_defs Let_def message_or_def split: sum.splits)




subsection \<open>Loading\<close>



subsection \<open>Pushed inserts\<close>

lemma deliver_inserts:
  "deliver (map INSERT ns) s =
     (Inr (), s\<lparr>notifications := rev ns @ notifications s,
                toasts := toasts s @ map (\<lambda>n. ToastInfo (message n)) ns\<rparr>)"
proof (induction ns arbitrary: s)
  case Nil
  show ?case by (simp add: done_with_def)
next
  case (Cons n ns)
  show ?case
    by (simp add: task_defs Cons.IH)
qed

text \<open>
  Claim C2. An \<open>INSERT\<close> payload puts its row at the head of the list, which grows by
  exactly one entry, and raises an information toast with the row's message. Nothing is
  asked of the row's id: when it is already in the list it occurs once more afterwards.
  A sequence of inserts adds one entry and one toast per payload, the latest row first.
\<close>

theorem insert_events_prepend:
  "notifications (after (on_postgres_changes (INSERT n)) s) = n # notifications s
   \<and> length (notifications (after (on_postgres_changes (INSERT n)) s))
       = Suc (length (notifications s))
   \<and> toasts (after (on_postgres_changes (INSERT n)) s) = toasts s @ [ToastInfo (message n)]
   \<and> count_list (map id_n (notifications (after (on_postgres_changes (INSERT n)) s))) (id_n n)
       = Suc (count_list (map id_n (notifications s)) (id_n n))
   \<and> notifications (after (deliver (map INSERT ns)) s) = rev ns @ notifications s
   \<and> length (notifications (after (deliver (map INSERT ns)) s))
       = length (notifications s) + length ns
   \<and> toasts (after (deliver (map INSERT ns)) s)
       = toasts s @ map (\<lambda>n. ToastInfo (message n)) ns"
  by (simp add: after_def task_defs deliver_inserts)

text \<open>
  At the loaded sample, a second insert of the row with id \<open>1\<close> gives three entries, two of
  them with that id.
\<close>

theorem insert_events_prepend_witness:
  "notifications (after (on_postgres_changes (INSERT sample_1)) sample_loaded)
     = [sample_1, sample_1, sample_2]
   \<and> length (notifications (after (on_postgres_changes (INSERT sample_1)) sample_loaded)) = 3
   \<and> count_list (map id_n (notifications
          (after (on_postgres_changes (INSERT sample_1)) sample_loaded))) ''1'' = 2
   \<and> toasts (after (on_postgres_changes (INSERT sample_1)) sample_loaded)
     = [ToastInfo ''You are invited'']"
proof -
  have old: "notifications sample_loaded = [sample_1, sample_2]" "toasts sample_loaded = []"
    by (simp_all add: sample_loaded_def)
  have fields: "id_n sample_1 = ''1''" "id_n sample_2 = ''2''"
    "message sample_1 = ''You are invited''"
    by (simp_all add: sample_1_def sample_2_def)
  from insert_events_prepend [of sample_1 sample_loaded "[]"]
  show ?thesis
    by (simp add: old fields del: on_postgres_changes.simps)
qed

subsection \<open>Marking as read and deleting\<close>

lemma markAsRead_ok:
  assumes "ok response"
  shows "markAsRead (Some u) ids (Inr response) s =
    (Inr (), s\<lparr>notifications :=
                 map (\<lambda>n. if id_n n \<in> set ids then n\<lparr>read := True\<rparr> else n) (notifications s),
               fetches := fetches s @ [Request (''/api/notifications/'' @ join '','' ids)
                                        (Some ''PATCH'') None]\<rparr>)"
  using assms by (simp add: markAsRead_def task_defs)

lemma deleteNotifications_ok:
  assumes "ok response"
  shows "deleteNotifications (Some u) ids (Inr response) s =
    (Inr (), s\<lparr>notifications := filter (\<lambda>n. id_n n \<notin> set ids) (notifications s),
               fetches := fetches s @ [Request (''/api/notifications/'' @ join '','' ids)
                                        (Some ''DELETE'') (Some ''include'')]\<rparr>)"
  using assms by (simp add: deleteNotifications_def task_defs)

lemma count_list_filter: "count_list (filter P xs) x = (if P x then count_list xs x else 0)"
  by (induction xs) auto

text \<open>
  Claim C3. After a \<open>markAsRead\<close> with a user bound and a 2xx response, the list has the
  same length and the same ids in the same order, every entry whose id is among the given
  ids is read, and position by position an entry is the old one with \<open>read\<close> set when its
  id is among the given ids, and the old one itself otherwise.
\<close>

theorem markAsRead_success:
  "ok response \<Longrightarrow>
   (let old = notifications s;
        new = notifications (after (markAsRead (Some u) ids (Inr response)) s)
    in length new = length old
       \<and> map id_n new = map id_n old
       \<and> (\<forall>n \<in> set new. id_n n \<in> set ids \<longrightarrow> read n)
       \<and> (\<forall>i < length old.
            new ! i = (if id_n (old ! i) \<in> set ids then (old ! i)\<lparr>read := True\<rparr> else old ! i)))"
  by (simp add: after_def markAsRead_ok Let_def) (auto simp: comp_def)

theorem markAsRead_success_witness:
  "ok response_done
   \<and> length (notifications (after (markAsRead (Some ''u1'') [''1'', ''9''] (Inr response_done))
                sample_loaded)) = 2
   \<and> notifications (after (markAsRead (Some ''u1'') [''1'', ''9''] (Inr response_done))
        sample_loaded) ! 0 = sample_1\<lparr>read := True\<rparr>
   \<and> notifications (after (markAsRead (Some ''u1'') [''1'', ''9''] (Inr response_done))
        sample_loaded) ! 1 = sample_2"
proof -
  have ok: "ok response_done"
    by (simp add: response_done_def)
  have old: "notifications sample_loaded = [sample_1, sample_2]"
    by (simp add: sample_loaded_def)
  have ids: "id_n sample_1 \<in> set [''1'', ''9'']" "id_n sample_2 \<notin> set [''1'', ''9'']"
    by (simp_all add: sample_1_def sample_2_def)
  let ?new = "notifications (after (markAsRead (Some ''u1'') [''1'', ''9''] (Inr response_done))
                sample_loaded)"
  from markAsRead_success [OF ok, of sample_loaded "''u1''" "[''1'', ''9'']"]
  have len: "length ?new = 2"
    and nth: "\<forall>i < 2. ?new ! i =
        (if id_n ([sample_1, sample_2] ! i) \<in> set [''1'', ''9'']
         then ([sample_1, sample_2] ! i)\<lparr>read := True\<rparr> else [sample_1, sample_2] ! i)"
    unfolding Let_def old by simp_all
  from nth have "?new ! 0 = sample_1\<lparr>read := True\<rparr>"
    using ids by (simp del: set_simps)
  moreover from nth have "?new ! 1 = sample_2"
    using ids by (simp del: set_simps)
  ultimately show ?thesis using ok len by simp
qed

text \<open>
  Claim C4. After a \<open>deleteNotifications\<close> with a user bound and a 2xx response, no entry
  of the list has its id among the given ids, the list is a subsequence of the old one (the
  survivors keep their relative order), and every entry whose id is not among the given ids
  occurs as often as before.
\<close>

theorem deleteNotifications_success:
  "ok response \<Longrightarrow>
   (let old = notifications s;
        new = notifications (after (deleteNotifications (Some u) ids (Inr response)) s)
    in (\<forall>n \<in> set new. id_n n \<notin> set ids)
       \<and> subseq new old
       \<and> (\<forall>n. id_n n \<notin> set ids \<longrightarrow> count_list new n = count_list old n))"
  by (simp add: after_def deleteNotifications_ok Let_def count_list_filter)

theorem deleteNotifications_success_witness:
  "ok response_done
   \<and> sample_1 \<notin> set (notifications (after (deleteNotifications (Some ''u1'') [''1'', ''9'']
                                              (Inr response_done)) sample_loaded))
   \<and> subseq (notifications (after (deleteNotifications (Some ''u1'') [''1'', ''9'']
                                    (Inr response_done)) sample_loaded))
        [sample_1, sample_2]
   \<and> count_list (notifications (after (deleteNotifications (Some ''u1'') [''1'', ''9'']
                                        (Inr response_done)) sample_loaded)) sample_2 = 1"
proof -
  have ok: "ok response_done"
    by (simp add: response_done_def)
  have old: "notifications sample_loaded = [sample_1, sample_2]"
    by (simp add: sample_loaded_def)
  have kept: "id_n sample_2 \<notin> set [''1'', ''9'']" "sample_1 \<noteq> sample_2"
    "id_n sample_1 \<in> set [''1'', ''9'']"
    by (simp_all add: sample_1_def sample_2_def)
  from deleteNotifications_success [OF ok, of sample_loaded "''u1''" "[''1'', ''9'']"] kept
  show ?thesis
    unfolding Let_def old using ok by (auto simp del: set_simps)
qed

subsection \<open>Pushed updates and deletes\<close>

lemma map_replace_absent: "x \<notin> f ` set xs \<Longrightarrow> map (\<lambda>n. if f n = x then r else n) xs = xs"
  by (induction xs) auto

lemma filter_absent: "x \<notin> f ` set xs \<Longrightarrow> filter (\<lambda>n. f n \<noteq> x) xs = xs"
  by (induction xs) auto

text \<open>
  Claim C5. An \<open>UPDATE\<close> payload keeps the length of the list; position by position an
  entry with the id of the pushed row becomes the pushed row and any other entry stays as it
  is. When no entry has that id the whole state is unchanged. The rest of the state is
  never touched.
\<close>

theorem update_event_replaces_in_place:
  "(let old = notifications s; s' = after (on_postgres_changes (UPDATE r)) s
    in length (notifications s') = length old
       \<and> (\<forall>i < length old.
            notifications s' ! i = (if id_n (old ! i) = id_n r then r else old ! i))
       \<and> (id_n r \<notin> id_n ` set old \<longrightarrow> s' = s)
       \<and> loading s' = loading s \<and> error s' = error s
       \<and> toasts s' = toasts s \<and> fetches s' = fetches s)"
  by (simp add: after_def task_defs Let_def map_replace_absent)

theorem update_event_replaces_in_place_witness:
  "notifications (after (on_postgres_changes (UPDATE (sample_1\<lparr>read := True\<rparr>))) sample_loaded) ! 0
     = sample_1\<lparr>read := True\<rparr>
   \<and> notifications (after (on_postgres_changes (UPDATE (sample_1\<lparr>read := True\<rparr>))) sample_loaded) ! 1
     = sample_2
   \<and> length (notifications
        (after (on_postgres_changes (UPDATE (sample_1\<lparr>read := True\<rparr>))) sample_loaded)) = 2
   \<and> after (on_postgres_changes (UPDATE sample_3)) sample_loaded = sample_loaded"
proof -
  have old: "notifications sample_loaded = [sample_1, sample_2]"
    by (simp add: sample_loaded_def)
  have ids: "id_n sample_1 = ''1''" "id_n sample_2 = ''2''"
    "id_n sample_3 \<notin> id_n ` set [sample_1, sample_2]"
    by (simp_all add: sample_1_def sample_2_def sample_3_def)
  let ?s' = "after (on_postgres_changes (UPDATE (sample_1\<lparr>read := True\<rparr>))) sample_loaded"
  from update_event_replaces_in_place [of sample_loaded "sample_1\<lparr>read := True\<rparr>"]
  have len: "length (notifications ?s') = 2"
    and nth: "\<forall>i < 2. notifications ?s' ! i =
        (if id_n ([sample_1, sample_2] ! i) = id_n (sample_1\<lparr>read := True\<rparr>)
         then sample_1\<lparr>read := True\<rparr> else [sample_1, sample_2] ! i)"
    unfolding Let_def old by simp_all
  from nth ids have first: "notifications ?s' ! 0 = sample_1\<lparr>read := True\<rparr>"
    by simp
  from nth ids have second: "notifications ?s' ! 1 = sample_2"
    by simp
  from update_event_replaces_in_place [of sample_loaded sample_3] ids(3)
  have absent: "after (on_postgres_changes (UPDATE sample_3)) sample_loaded = sample_loaded"
    unfolding Let_def old by simp
  from first second len absent show ?thesis by simp
qed

text \<open>
  Claim C6. A \<open>DELETE\<close> payload leaves no entry with the id of the deleted row, keeps the
  other entries in their order and number, and changes nothing when no entry has that id.
  Handling the same payload a second time gives the state the first handling gave.
\<close>

theorem delete_event_idempotent:
  "(let old = notifications s; s' = after (on_postgres_changes (DELETE r)) s
    in after (on_postgres_changes (DELETE r)) s' = s'
       \<and> (\<forall>n \<in> set (notifications s'). id_n n \<noteq> id_n r)
       \<and> subseq (notifications s') old
       \<and> (\<forall>n. id_n n \<noteq> id_n r \<longrightarrow> count_list (notifications s') n = count_list old n)
       \<and> (id_n r \<notin> id_n ` set old \<longrightarrow> s' = s)
       \<and> loading s' = loading s \<and> error s' = error s
       \<and> toasts s' = toasts s \<and> fetches s' = fetches s)"
  by (simp add: after_def task_defs Let_def filter_absent count_list_filter)

theorem delete_event_idempotent_witness:
  "after (on_postgres_changes (DELETE sample_1))
     (after (on_postgres_changes (DELETE sample_1)) sample_loaded)
     = after (on_postgres_changes (DELETE sample_1)) sample_loaded
   \<and> sample_1 \<notin> set (notifications (after (on_postgres_changes (DELETE sample_1)) sample_loaded))
   \<and> count_list (notifications (after (on_postgres_changes (DELETE sample_1)) sample_loaded))
        sample_2 = 1
   \<and> after (on_postgres_changes (DELETE sample_3)) sample_loaded = sample_loaded"
proof -
  have old: "notifications sample_loaded = [sample_1, sample_2]"
    by (simp add: sample_loaded_def)
  have ids: "id_n sample_1 = ''1''" "id_n sample_2 \<noteq> id_n sample_1" "sample_1 \<noteq> sample_2"
    "id_n sample_3 \<notin> id_n ` set [sample_1, sample_2]"
    by (simp_all add: sample_1_def sample_2_def sample_3_def)
  from delete_event_idempotent [of sample_loaded sample_1] ids(1,2,3)
  have present:
    "after (on_postgres_changes (DELETE sample_1))
       (after (on_postgres_changes (DELETE sample_1)) sample_loaded)
       = after (on_postgres_changes (DELETE sample_1)) sample_loaded
     \<and> sample_1 \<notin> set (notifications (after (on_postgres_changes (DELETE sample_1)) sample_loaded))
     \<and> count_list (notifications (after (on_postgres_changes (DELETE sample_1)) sample_loaded))
          sample_2 = 1"
    unfolding Let_def old by auto
  from delete_event_idempotent [of sample_loaded sample_3] ids(4)
  have absent: "after (on_postgres_changes (DELETE sample_3)) sample_loaded = sample_loaded"
    unfolding Let_def old by simp
  from present absent show ?thesis by simp
qed

subsection \<open>The unread count\<close>

lemma count_unread: "length (filter (\<lambda>n. \<not> read n) ns) = count_list (map read ns) False"
  by (induction ns) auto

text \<open>
  Claim C7. In every state the hook can reach, \<open>unreadCount\<close> is the number of entries
  whose \<open>read\<close> field is false. It is computed from the list alone: two states with the
  same list have the same count.
\<close>

theorem unreadCount_derived:
  "reachable s \<Longrightarrow>
   unreadCount s = count_list (map read (notifications s)) False
   \<and> (\<forall>t. notifications t = notifications s \<longrightarrow> unreadCount t = unreadCount s)"
  by (simp add: unreadCount_def count_unread)

theorem unreadCount_derived_witness:
  "reachable (after (dispatch (EffectRun (Some ''u1'') (Inr response_list))) initial)
   \<and> unreadCount (after (dispatch (EffectRun (Some ''u1'') (Inr response_list))) initial) = 2
   \<and> unreadCount sample_loaded = 2"
proof -
  let ?s = "after (dispatch (EffectRun (Some ''u1'') (Inr response_list))) initial"
  have r: "reachable ?s"
    by (rule reachable_dispatch) (rule reachable_initial)
  have list: "notifications ?s = [sample_1, sample_2]"
    by (simp add: after_def load_success response_list_def)
  have same: "notifications sample_loaded = notifications ?s"
    unfolding list by (simp add: sample_loaded_def)
  from unreadCount_derived [OF r] list have count: "unreadCount ?s = 2"
    by (simp add: sample_1_def sample_2_def)
  from unreadCount_derived [OF r] same have "unreadCount sample_loaded = unreadCount ?s"
    by blast
  with r count show ?thesis by simp
qed

subsection \<open>A failed load with a body that is not JSON\<close>

text \<open>
  Claim C8, as stated, fails. For the 502 response whose body is the text
  \<open>Bad Gateway\<close>, the message recorded in \<open>error\<close> and shown in the toast is that text
  alone: the generic message is not put in front of it.
\<close>

theorem load_non_json_counterexample:
  "\<not> ok response_html \<and> \<not> announces_json response_html
   \<and> body_text response_html = Inr ''Bad Gateway''
   \<and> error (after (loadNotifications (Some ''u1'') (Inr response_html)) sample_loaded)
       = Some ''Bad Gateway''
   \<and> error (after (loadNotifications (Some ''u1'') (Inr response_html)) sample_loaded)
       \<noteq> Some (msg_non_json @ ''Bad Gateway'')
   \<and> toasts (after (loadNotifications (Some ''u1'') (Inr response_html)) sample_loaded)
       = [ToastError ''Bad Gateway'']"
  by (simp add: after_def load_not_ok errorData_of_def announces_json_def response_html_def
        sample_loaded_def api_error_message_def or_str_def msg_non_json_def sublist_code Let_def)

text \<open>
  Claim C8, amended. When \<open>loadNotifications\<close> receives a non-2xx response whose
  \<open>content-type\<close> is absent or does not contain \<open>application/json\<close>, and the body is read
  as \<open>text\<close>, the message recorded in \<open>error\<close> and shown in the error toast is \<open>text\<close>
  alone when it is not empty, and the generic message alone when it is empty.
\<close>

theorem load_non_json_error:
  "\<not> ok response \<Longrightarrow> \<not> announces_json response \<Longrightarrow> body_text response = Inr text \<Longrightarrow>
   (let s' = after (loadNotifications (Some u) (Inr response)) s;
        m = (if text = [] then msg_non_json else text)
    in error s' = Some m \<and> toasts s' = toasts s @ [ToastError m]
       \<and> notifications s' = notifications s \<and> \<not> loading s')"
  by (simp add: after_def load_not_ok errorData_of_def api_error_message_def or_str_def
        msg_non_json_nonempty Let_def)

theorem load_non_json_error_witness:
  "\<not> ok response_html \<and> \<not> announces_json response_html
   \<and> body_text response_html = Inr ''Bad Gateway''
   \<and> error (after (loadNotifications (Some ''u1'') (Inr response_html)) initial)
       = Some ''Bad Gateway''
   \<and> \<not> ok response_empty \<and> \<not> announces_json response_empty
   \<and> body_text response_empty = Inr []
   \<and> error (after (loadNotifications (Some ''u1'') (Inr response_empty)) initial)
       = Some msg_non_json"
proof -
  have html: "\<not> ok response_html" "\<not> announces_json response_html"
    "body_text response_html = Inr ''Bad Gateway''"
    by (simp_all add: response_html_def announces_json_def sublist_code)
  have empty: "\<not> ok response_empty" "\<not> announces_json response_empty"
    "body_text response_empty = Inr []"
    by (simp_all add: response_empty_def announces_json_def)
  from load_non_json_error [OF html, of "''u1''" initial]
  have a: "error (after (loadNotifications (Some ''u1'') (Inr response_html)) initial)
       = Some ''Bad Gateway''"
    by (simp add: Let_def)
  from load_non_json_error [OF empty, of "''u1''" initial]
  have b: "error (after (loadNotifications (Some ''u1'') (Inr response_empty)) initial)
       = Some msg_non_json"
    by (simp add: Let_def)
  from html empty a b show ?thesis by simp
qed

subsection \<open>Failed mutations\<close>

lemma markAsRead_failed:
  assumes "request_failed settled"
  shows "\<exists>m. markAsRead (Some u) ids settled s =
    (Inr (), s\<lparr>fetches := fetches s @ [Request (''/api/notifications/'' @ join '','' ids)
                                        (Some ''PATCH'') None],
               toasts := toasts s @ [ToastError m]\<rparr>)"
  using assms
  by (auto simp add: markAsRead_def request_failed_def task_defs Let_def split: sum.splits)

lemma deleteNotifications_failed:
  assumes "request_failed settled"
  shows "\<exists>m. deleteNotifications (Some u) ids settled s =
    (Inr (), s\<lparr>fetches := fetches s @ [Request (''/api/notifications/'' @ join '','' ids)
                                        (Some ''DELETE'') (Some ''include'')],
               toasts := toasts s @ [ToastError m]\<rparr>)"
  using assms
  by (auto simp add: deleteNotifications_def request_failed_def task_defs Let_def split: sum.splits)

text \<open>
  Claim C9. When the request of \<open>markAsRead\<close> or of \<open>deleteNotifications\<close> fails (the
  \<open>fetch\<close> rejects, or the response is not a 2xx one), the list, \<open>error\<close> and \<open>loading\<close>
  are what they were, one error toast is raised, and the promise of the operation is
  fulfilled: nothing thrown leaves it.
\<close>

theorem mutation_failure_transient:
  "request_failed settled \<Longrightarrow>
   (let s' = after (markAsRead (Some u) ids settled) s
    in notifications s' = notifications s \<and> error s' = error s \<and> loading s' = loading s
       \<and> (\<exists>m. toasts s' = toasts s @ [ToastError m])
       \<and> settles (markAsRead (Some u) ids settled) s = Inr ())
   \<and> (let s' = after (deleteNotifications (Some u) ids settled) s
    in notifications s' = notifications s \<and> error s' = error s \<and> loading s' = loading s
       \<and> (\<exists>m. toasts s' = toasts s @ [ToastError m])
       \<and> settles (deleteNotifications (Some u) ids settled) s = Inr ())"
proof -
  assume failed: "request_failed settled"
  from markAsRead_failed [OF failed, of u ids s] obtain m where
    "markAsRead (Some u) ids settled s =
      (Inr (), s\<lparr>fetches := fetches s @ [Request (''/api/notifications/'' @ join '','' ids)
                                          (Some ''PATCH'') None],
                 toasts := toasts s @ [ToastError m]\<rparr>)"
    by blast
  then have mark: "let s' = after (markAsRead (Some u) ids settled) s
    in notifications s' = notifications s \<and> error s' = error s \<and> loading s' = loading s
       \<and> (\<exists>m. toasts s' = toasts s @ [ToastError m])
       \<and> settles (markAsRead (Some u) ids settled) s = Inr ()"
    by (simp add: after_def settles_def)
  from deleteNotifications_failed [OF failed, of u ids s] obtain m' where
    "deleteNotifications (Some u) ids settled s =
      (Inr (), s\<lparr>fetches := fetches s @ [Request (''/api/notifications/'' @ join '','' ids)
                                          (Some ''DELETE'') (Some ''include'')],
                 toasts := toasts s @ [ToastError m']\<rparr>)"
    by blast
  then have del: "let s' = after (deleteNotifications (Some u) ids settled) s
    in notifications s' = notifications s \<and> error s' = error s \<and> loading s' = loading s
       \<and> (\<exists>m. toasts s' = toasts s @ [ToastError m])
       \<and> settles (deleteNotifications (Some u) ids settled) s = Inr ()"
    by (simp add: after_def settles_def)
  from mark del show ?thesis by simp
qed

theorem mutation_failure_transient_witness:
  "request_failed (Inl (JsError ''Failed to fetch''))
   \<and> notifications (after (markAsRead (Some ''u1'') [''1'', ''2'']
                            (Inl (JsError ''Failed to fetch''))) sample_loaded)
       = [sample_1, sample_2]
   \<and> error (after (markAsRead (Some ''u1'') [''1'', ''2'']
                    (Inl (JsError ''Failed to fetch''))) sample_loaded) = None
   \<and> (\<exists>m. toasts (after (markAsRead (Some ''u1'') [''1'', ''2'']
                           (Inl (JsError ''Failed to fetch''))) sample_loaded) = [ToastError m])
   \<and> request_failed (Inr response_api_error)
   \<and> notifications (after (deleteNotifications (Some ''u1'') [''1'']
                            (Inr response_api_error)) sample_loaded)
       = [sample_1, sample_2]
   \<and> error (after (deleteNotifications (Some ''u1'') [''1'']
                    (Inr response_api_error)) sample_loaded) = None"
proof -
  have net: "request_failed (Inl (JsError ''Failed to fetch''))"
    by (simp add: request_failed_def)
  have srv: "request_failed (Inr response_api_error)"
    by (simp add: request_failed_def response_api_error_def)
  have old: "notifications sample_loaded = [sample_1, sample_2]" "error sample_loaded = None"
    "toasts sample_loaded = []"
    by (simp_all add: sample_loaded_def)
  from mutation_failure_transient [OF net, of "''u1''" "[''1'', ''2'']" sample_loaded]
  have a: "notifications (after (markAsRead (Some ''u1'') [''1'', ''2'']
                            (Inl (JsError ''Failed to fetch''))) sample_loaded)
       = [sample_1, sample_2]
     \<and> error (after (markAsRead (Some ''u1'') [''1'', ''2'']
                    (Inl (JsError ''Failed to fetch''))) sample_loaded) = None
     \<and> (\<exists>m. toasts (after (markAsRead (Some ''u1'') [''1'', ''2'']
                           (Inl (JsError ''Failed to fetch''))) sample_loaded) = [ToastError m])"
    unfolding Let_def old by simp
  from mutation_failure_transient [OF srv, of "''u1''" "[''1'']" sample_loaded]
  have b: "notifications (after (deleteNotifications (Some ''u1'') [''1'']
                            (Inr response_api_error)) sample_loaded)
       = [sample_1, sample_2]
     \<and> error (after (deleteNotifications (Some ''u1'') [''1'']
                    (Inr response_api_error)) sample_loaded) = None"
    unfolding Let_def old by simp
  from net srv a b show ?thesis by simp
qed

subsection \<open>Authentication events\<close>

text \<open>
  Claim C10. On \<open>SIGNED_OUT\<close> the list becomes empty while \<open>loading\<close>, \<open>error\<close>, the
  requests sent and the toasts raised stay as they were. An event that is neither
  \<open>SIGNED_IN\<close> nor \<open>SIGNED_OUT\<close> leaves the whole state unchanged.
\<close>

theorem auth_state_change_frame:
  "(let s' = after (onAuthStateChange user ''SIGNED_OUT'' settled) s
    in notifications s' = [] \<and> loading s' = loading s \<and> error s' = error s
       \<and> fetches s' = fetches s \<and> toasts s' = toasts s)
   \<and> (ev \<noteq> ''SIGNED_IN'' \<and> ev \<noteq> ''SIGNED_OUT'' \<longrightarrow>
        after (onAuthStateChange user ev settled) s = s)"
  by (simp add: onAuthStateChange_def after_def setNotifications_def done_with_def)

theorem auth_state_change_frame_witness:
  "''TOKEN_REFRESHED'' \<noteq> ''SIGNED_IN'' \<and> ''TOKEN_REFRESHED'' \<noteq> ''SIGNED_OUT''
   \<and> after (onAuthStateChange (Some ''u1'') ''TOKEN_REFRESHED'' (Inr response_list)) sample_loaded
       = sample_loaded
   \<and> notifications (after (onAuthStateChange (Some ''u1'') ''SIGNED_OUT'' (Inr response_list))
        sample_loaded) = []
   \<and> fetches (after (onAuthStateChange (Some ''u1'') ''SIGNED_OUT'' (Inr response_list))
        sample_loaded) = fetches sample_loaded"
  using auth_state_change_frame
    [of "Some ''u1''" "Inr response_list" sample_loaded "''TOKEN_REFRESHED''"]
  by (simp add: Let_def)

end
